theory Spec2Isabelle
  imports Main "HOL-Library.Sublist"
begin

section \<open>The chunked ingestion pipeline of pipeline.py\<close>

text \<open>
  The program is one Python module: \<open>detect_format\<close>, the generator
  \<open>read_data_chunked\<close> and the command \<open>run\<close>. Everything it does not
  compute itself (decoding a file with pandas, executing SQL) is a call into a library;
  those calls are the fields of an environment record, and each call that touches the
  outside world is written to an event trace in the order in which the program makes it.
\<close>

subsection \<open>Strings\<close>

text \<open>
  \<open>str.lower\<close>, on the ASCII letters. A code point outside ASCII never lower-cases
  to one of the letters or the dot of the three suffixes tested below, so the suffix tests
  are the same on Python's strings.
\<close>

definition lower_char :: "char \<Rightarrow> char" where
  "lower_char c =
     (let n = (of_char c :: nat) in if 65 \<le> n \<and> n \<le> 90 then char_of (n + 32) else c)"

definition lower :: "string \<Rightarrow> string" where
  "lower s = map lower_char s"

text \<open>\<open>s.endswith(suf)\<close>: the last \<open>len(suf)\<close> characters of \<open>s\<close> are \<open>suf\<close>.\<close>

definition endswith :: "string \<Rightarrow> string \<Rightarrow> bool" where
  "endswith s suf =
     (length suf \<le> length s \<and> drop (length s - length suf) s = suf)"

subsection \<open>Format detection\<close>

definition detect_format :: "string \<Rightarrow> string option" where
  "detect_format url =
     (let url_lower = lower url in
      if endswith url_lower ''.parquet'' then Some ''parquet''
      else if endswith url_lower ''.csv.gz'' \<or> endswith url_lower ''.csv'' then Some ''csv''
      else None)"

subsection \<open>Data frames, errors, events\<close>

text \<open>
  A DataFrame is its column schema and its rows, in order. Both are left abstract:
  the program never looks inside either.
\<close>

datatype ('s, 'r) frame = Frame (columns: 's) (rows: "'r list")

definition len :: "('s, 'r) frame \<Rightarrow> nat" where
  "len df = length (rows df)"

text \<open>
  Python's slice bounds: a negative bound counts from the end, and both bounds are
  clamped to the length. \<open>df.iloc[start:stop]\<close> keeps the schema.
\<close>

definition slice_index :: "nat \<Rightarrow> int \<Rightarrow> nat" where
  "slice_index n i = (if i < 0 then nat (max 0 (int n + i)) else min (nat i) n)"

definition iloc :: "('s, 'r) frame \<Rightarrow> int \<Rightarrow> int \<Rightarrow> ('s, 'r) frame" where
  "iloc df start stop =
     (let a = slice_index (len df) start; b = slice_index (len df) stop
      in Frame (columns df) (take (b - a) (drop a (rows df))))"

text \<open>\<open>df.head(n)\<close> is \<open>df.iloc[:n]\<close>.\<close>

definition head :: "('s, 'r) frame \<Rightarrow> int \<Rightarrow> ('s, 'r) frame" where
  "head df n = iloc df 0 n"

text \<open>
  The exceptions: the two the module raises itself, the one \<open>range\<close> raises on a zero
  step (a \<open>ValueError\<close> too), and whatever a library call raises.
\<close>

datatype error = UsageError string | ValueError string | LibraryError string

text \<open>The lines the program prints, one constructor for each \<open>print\<close> of the source.\<close>

datatype message =
    Detected_format string
  | Table_created string
  | Inserted nat
  | Finished_loading string

record pg =
  pg_user :: string
  pg_pass :: string
  pg_host :: string
  pg_port :: int
  pg_db :: string

datatype if_exists = Replace | Append

datatype ('s, 'r) event =
    Print message
  | Create_engine pg
  | Read_csv string "(string \<times> string) list option" "string list option" int
  | Read_parquet string
  | To_sql "('s, 'r) frame" string if_exists

text \<open>
  The libraries. \<open>pd_read_csv\<close> is the chunk iterator pandas returns for
  \<open>iterator=True, chunksize=chunksize\<close>: the batches it yields and the exception that
  ends it, if one does. \<open>pd_read_parquet\<close> decodes a whole file or raises.
  \<open>create_engine\<close> says whether building the engine raises, and \<open>to_sql\<close> whether
  a write raises, given everything that happened before it.
\<close>

record ('s, 'r) env =
  pd_read_csv :: "string \<Rightarrow> (string \<times> string) list option \<Rightarrow> string list option \<Rightarrow> int
                    \<Rightarrow> ('s, 'r) frame list \<times> error option"
  pd_read_parquet :: "string \<Rightarrow> error + ('s, 'r) frame"
  create_engine :: "pg \<Rightarrow> error option"
  to_sql :: "('s, 'r) event list \<Rightarrow> ('s, 'r) frame \<Rightarrow> string \<Rightarrow> if_exists \<Rightarrow> error option"

subsection \<open>The chunk reader\<close>

text \<open>\<open>range(start, stop, step)\<close>, as the list of its values.\<close>

function range_up :: "int \<Rightarrow> int \<Rightarrow> int \<Rightarrow> int list" where
  "range_up start stop step =
     (if 0 < step \<and> start < stop then start # range_up (start + step) stop step else [])"
  by pat_completeness auto
termination
  by (relation "measure (\<lambda>(start, stop, step). nat (stop - start))") auto

function range_down :: "int \<Rightarrow> int \<Rightarrow> int \<Rightarrow> int list" where
  "range_down start stop step =
     (if step < 0 \<and> stop < start then start # range_down (start + step) stop step else [])"
  by pat_completeness auto
termination
  by (relation "measure (\<lambda>(start, stop, step). nat (start - stop))") auto

declare range_up.simps [simp del] range_down.simps [simp del]

definition py_range :: "int \<Rightarrow> int \<Rightarrow> int \<Rightarrow> error + int list" where
  "py_range start stop step =
     (if step = 0 then Inl (ValueError ''range() arg 3 must not be zero'')
      else if 0 < step then Inr (range_up start stop step)
      else Inr (range_down start stop step))"

text \<open>\<open>str\<close> of the format argument, for the message of the exception.\<close>

definition str_format :: "string option \<Rightarrow> string" where
  "str_format file_format = (case file_format of None \<Rightarrow> ''None'' | Some s \<Rightarrow> s)"

text \<open>
  A generator, run to its end: the library calls it made to open its source, the batches
  it yielded, in order, and the exception that ended it (\<open>None\<close> when it ended by
  returning). The body of a generator runs when its consumer asks for the first batch,
  so the exception of the last branch is raised there, not at the call.
\<close>

type_synonym ('s, 'r) gen = "('s, 'r) event list \<times> ('s, 'r) frame list \<times> error option"

definition read_data_chunked ::
  "('s, 'r) env \<Rightarrow> string \<Rightarrow> string option \<Rightarrow> int \<Rightarrow> (string \<times> string) list option
     \<Rightarrow> string list option \<Rightarrow> ('s, 'r) gen" where
  "read_data_chunked env url file_format chunksize use_dtype use_parse_dates =
     (if file_format = Some ''csv'' then
        (let it = pd_read_csv env url use_dtype use_parse_dates chunksize
         in ([Read_csv url use_dtype use_parse_dates chunksize], fst it, snd it))
      else if file_format = Some ''parquet'' then
        (case pd_read_parquet env url of
           Inl e \<Rightarrow> ([Read_parquet url], [], Some e)
         | Inr df \<Rightarrow>
             (case py_range 0 (int (len df)) chunksize of
                Inl e \<Rightarrow> ([Read_parquet url], [], Some e)
              | Inr starts \<Rightarrow>
                  ([Read_parquet url],
                   map (\<lambda>start. iloc df start (start + chunksize)) starts,
                   None)))
      else ([], [], Some (ValueError (''Unsupported format: '' @ str_format file_format))))"

subsection \<open>The command\<close>

definition yellow_dtype :: "(string \<times> string) list" where
  "yellow_dtype =
     [(''VendorID'', ''Int64''), (''passenger_count'', ''Int64''),
      (''trip_distance'', ''float64''), (''RatecodeID'', ''Int64''),
      (''store_and_fwd_flag'', ''string''), (''PULocationID'', ''Int64''),
      (''DOLocationID'', ''Int64''), (''payment_type'', ''Int64''),
      (''fare_amount'', ''float64''), (''extra'', ''float64''),
      (''mta_tax'', ''float64''), (''tip_amount'', ''float64''),
      (''tolls_amount'', ''float64''), (''improvement_surcharge'', ''float64''),
      (''total_amount'', ''float64''), (''congestion_surcharge'', ''float64'')]"

definition yellow_parse_dates :: "string list" where
  "yellow_parse_dates = [''tpep_pickup_datetime'', ''tpep_dropoff_datetime'']"

definition green_dtype :: "(string \<times> string) list" where
  "green_dtype =
     [(''VendorID'', ''Int64''), (''passenger_count'', ''Int64''),
      (''trip_distance'', ''float64''), (''RatecodeID'', ''Int64''),
      (''store_and_fwd_flag'', ''string''), (''PULocationID'', ''Int64''),
      (''DOLocationID'', ''Int64''), (''payment_type'', ''Int64''),
      (''fare_amount'', ''float64''), (''extra'', ''float64''),
      (''mta_tax'', ''float64''), (''tip_amount'', ''float64''),
      (''tolls_amount'', ''float64''), (''improvement_surcharge'', ''float64''),
      (''total_amount'', ''float64''), (''congestion_surcharge'', ''float64''),
      (''trip_type'', ''Int64'')]"

definition green_parse_dates :: "string list" where
  "green_parse_dates = [''lpep_pickup_datetime'', ''lpep_dropoff_datetime'']"

text \<open>Lines 126 to 133 of \<open>run\<close>: the hints the taxi type selects.\<close>

definition taxi_hints ::
  "string option \<Rightarrow> (string \<times> string) list option \<times> string list option" where
  "taxi_hints taxi_type =
     (if taxi_type = Some ''yellow'' then (Some yellow_dtype, Some yellow_parse_dates)
      else if taxi_type = Some ''green'' then (Some green_dtype, Some green_parse_dates)
      else (None, None))"

text \<open>
  Lines 136 to 142: the format and what was printed on the way, or the usage error.
\<close>

definition resolve_format :: "string \<Rightarrow> string option \<Rightarrow> error + (string \<times> message list)" where
  "resolve_format data_url file_format =
     (case file_format of
        Some f \<Rightarrow> Inr (f, [])
      | None \<Rightarrow>
          (case detect_format data_url of
             None \<Rightarrow>
               Inl (UsageError
                 ''Cannot detect format from URL. Please specify --format (csv or parquet)'')
           | Some f \<Rightarrow> Inr (f, [Detected_format f])))"

text \<open>
  One write: the call is recorded, and it raises or not. The second component of the
  result is the trace after the call.
\<close>

definition write_sql ::
  "('s, 'r) env \<Rightarrow> ('s, 'r) frame \<Rightarrow> string \<Rightarrow> if_exists \<Rightarrow> ('s, 'r) event list
     \<Rightarrow> error option \<times> ('s, 'r) event list" where
  "write_sql env df name mode tr = (to_sql env tr df name mode, tr @ [To_sql df name mode])"

text \<open>
  The \<open>for\<close> loop of lines 159 to 166, over the batches the generator yields; \<open>first\<close>
  is the flag of line 157. An exception of a write leaves the loop with the trace so far.
\<close>

fun load_chunks ::
  "('s, 'r) env \<Rightarrow> string \<Rightarrow> bool \<Rightarrow> ('s, 'r) frame list \<Rightarrow> ('s, 'r) event list
     \<Rightarrow> error option \<times> ('s, 'r) event list" where
  "load_chunks env target_table first [] tr = (None, tr)"
| "load_chunks env target_table first (df_chunk # rest) tr =
     (case (if first then
              (case write_sql env (head df_chunk 0) target_table Replace tr of
                 (Some e, tr1) \<Rightarrow> (Some e, tr1)
               | (None, tr1) \<Rightarrow> (None, tr1 @ [Print (Table_created target_table)]))
            else (None, tr)) of
        (Some e, tr1) \<Rightarrow> (Some e, tr1)
      | (None, tr1) \<Rightarrow>
          (case write_sql env df_chunk target_table Append tr1 of
             (Some e, tr2) \<Rightarrow> (Some e, tr2)
           | (None, tr2) \<Rightarrow>
               load_chunks env target_table False rest
                 (tr2 @ [Print (Inserted (len df_chunk))])))"

text \<open>
  \<open>run\<close>: its result (\<open>Inr ()\<close> when it returns, \<open>Inl\<close> the exception that leaves it)
  and the trace of what it did. The \<open>click\<close> decorators, which parse the command line,
  and \<open>tqdm\<close>, which passes the batches through, are not modelled.
\<close>

definition run ::
  "('s, 'r) env \<Rightarrow> pg \<Rightarrow> string \<Rightarrow> string \<Rightarrow> int \<Rightarrow> string option \<Rightarrow> string option
     \<Rightarrow> (error + unit) \<times> ('s, 'r) event list" where
  "run env conn url target_table chunksize file_format taxi_type =
     (let (use_dtype, use_parse_dates) = taxi_hints taxi_type in
      case resolve_format url file_format of
        Inl e \<Rightarrow> (Inl e, [])
      | Inr (fmt, out) \<Rightarrow>
          (let (use_dtype, use_parse_dates) =
                 (if fmt = ''parquet'' then (None, None) else (use_dtype, use_parse_dates))
           in case create_engine env conn of
                Some e \<Rightarrow> (Inl e, map Print out @ [Create_engine conn])
              | None \<Rightarrow>
                  (let (io, batches, raised) =
                         read_data_chunked env url (Some fmt) chunksize use_dtype use_parse_dates
                   in case load_chunks env target_table True batches
                             (map Print out @ [Create_engine conn] @ io) of
                        (Some e, tr) \<Rightarrow> (Inl e, tr)
                      | (None, tr) \<Rightarrow>
                          (case raised of
                             Some e \<Rightarrow> (Inl e, tr)
                           | None \<Rightarrow>
                               (Inr (), tr @ [Print (Finished_loading target_table)])))))"

subsection \<open>Reading a trace\<close>

text \<open>
  What a trace says: the writes sent to the database, the lines printed, the counts of the
  \<open>Inserted\<close> lines and the number of records the append writes carried.
\<close>

fun is_to_sql :: "('s, 'r) event \<Rightarrow> bool" where
  "is_to_sql (To_sql df name mode) = True"
| "is_to_sql e = False"

definition sql_calls :: "('s, 'r) event list \<Rightarrow> ('s, 'r) event list" where
  "sql_calls tr = filter is_to_sql tr"

definition printed :: "('s, 'r) event list \<Rightarrow> message list" where
  "printed tr = [m. Print m \<leftarrow> tr]"

definition inserted_counts :: "('s, 'r) event list \<Rightarrow> nat list" where
  "inserted_counts tr = [n. Print (Inserted n) \<leftarrow> tr]"

definition rows_appended :: "('s, 'r) event list \<Rightarrow> nat" where
  "rows_appended tr = sum_list [len df. To_sql df name Append \<leftarrow> tr]"

subsection \<open>A sample environment\<close>

text \<open>
  An engine that is built, a database that accepts every write and two columnar sources: \<open>trips.parquet\<close>
  decodes to five records, every other locator to a table with no record.
\<close>

definition sample_conn :: pg where
  "sample_conn =
     \<lparr>pg_user = ''root'', pg_pass = ''root'', pg_host = ''localhost'', pg_port = 5432,
      pg_db = ''ny_taxi''\<rparr>"

definition sample_env :: "(string list, nat) env" where
  "sample_env =
     \<lparr>pd_read_csv = (\<lambda>url use_dtype use_parse_dates chunksize. ([], None)),
      pd_read_parquet =
        (\<lambda>url. if url = ''trips.parquet''
              then Inr (Frame [''VendorID'', ''fare_amount''] [1, 2, 3, 4, 5])
              else Inr (Frame [''VendorID'', ''fare_amount''] [])),
      create_engine = (\<lambda>conn. None),
      to_sql = (\<lambda>tr df name mode. None)\<rparr>"

text \<open>The same sources, on a database that refuses every append of exactly two records.\<close>

definition refusing_env :: "(string list, nat) env" where
  "refusing_env =
     sample_env\<lparr>to_sql :=
       (\<lambda>tr df name mode.
          if mode = Append \<and> len df = 2 then Some (LibraryError ''connection lost'')
          else None)\<rparr>"

text \<open>
  A delimited-text source that holds its header line and no record. For such a file the
  chunk iterator of pandas yields one batch, which has the columns of the header and no
  row, and then ends.
\<close>

definition header_only_env :: "(string list, nat) env" where
  "header_only_env =
     sample_env\<lparr>pd_read_csv :=
       (\<lambda>url use_dtype use_parse_dates chunksize.
          ([Frame [''LocationID'', ''Zone''] []], None))\<rparr>"

text \<open>Columnar sources that decode to a table of one column and no record.\<close>

definition bare_env :: "(string list, nat) env" where
  "bare_env = sample_env\<lparr>pd_read_parquet := (\<lambda>url. Inr (Frame [''trip_id''] []))\<rparr>"

section \<open>Format detection\<close>

lemma endswith_suffix: "endswith s suf \<longleftrightarrow> suffix suf s"
proof
  assume "endswith s suf"
  then have "s = take (length s - length suf) s @ suf"
    by (metis append_take_drop_id endswith_def)
  then show "suffix suf s"
    by (rule suffixI)
next
  assume "suffix suf s"
  then obtain p where "s = p @ suf"
    by (auto simp: suffix_def)
  then show "endswith s suf"
    by (simp add: endswith_def)
qed

lemma suffix_last: "suffix suf s \<Longrightarrow> suf \<noteq> [] \<Longrightarrow> last s = last suf"
  by (auto simp: suffix_def)

lemma csv_not_parquet: "suffix ''.csv'' s \<Longrightarrow> \<not> suffix ''.parquet'' s"
  using suffix_last [of "''.csv''" s] suffix_last [of "''.parquet''" s] by auto

lemma csv_gz_not_parquet: "suffix ''.csv.gz'' s \<Longrightarrow> \<not> suffix ''.parquet'' s"
  using suffix_last [of "''.csv.gz''" s] suffix_last [of "''.parquet''" s] by auto

lemma detect_format_none:
  assumes "\<not> suffix ''.parquet'' (lower url)" and "\<not> suffix ''.csv'' (lower url)"
    and "\<not> suffix ''.csv.gz'' (lower url)"
  shows "detect_format url = None"
  using assms by (simp add: detect_format_def endswith_suffix Let_def)

text \<open>
  C4. \<open>detect_format\<close> looks at the suffix of the lower-cased locator: a locator that
  ends in \<open>.parquet\<close> gives \<open>parquet\<close>, one that ends in \<open>.csv\<close> or \<open>.csv.gz\<close>
  gives \<open>csv\<close>, and every other locator gives \<open>None\<close>. The three suffixes exclude
  each other, so the order of the tests in the source does not matter.
\<close>

theorem detect_format_by_suffix:
  "(suffix ''.parquet'' (lower url) \<longrightarrow> detect_format url = Some ''parquet'') \<and>
   (suffix ''.csv'' (lower url) \<or> suffix ''.csv.gz'' (lower url)
      \<longrightarrow> detect_format url = Some ''csv'') \<and>
   (\<not> suffix ''.parquet'' (lower url) \<and> \<not> suffix ''.csv'' (lower url) \<and>
    \<not> suffix ''.csv.gz'' (lower url) \<longrightarrow> detect_format url = None)"
  using csv_not_parquet [of "lower url"] csv_gz_not_parquet [of "lower url"]
  by (auto simp: detect_format_def endswith_suffix Let_def)

theorem detect_format_by_suffix_witness:
  "suffix ''.parquet'' (lower ''s3://bucket/Trips.PARQUET'') \<and>
   detect_format ''s3://bucket/Trips.PARQUET'' = Some ''parquet'' \<and>
   suffix ''.csv.gz'' (lower ''green_2021.CSV.gz'') \<and>
   detect_format ''green_2021.CSV.gz'' = Some ''csv'' \<and>
   suffix ''.csv'' (lower ''zones.csv'') \<and>
   detect_format ''zones.csv'' = Some ''csv'' \<and>
   \<not> suffix ''.parquet'' (lower ''trips.parquet.zip'') \<and>
   \<not> suffix ''.csv'' (lower ''trips.parquet.zip'') \<and>
   \<not> suffix ''.csv.gz'' (lower ''trips.parquet.zip'') \<and>
   detect_format ''trips.parquet.zip'' = None"
proof -
  have a: "suffix ''.parquet'' (lower ''s3://bucket/Trips.PARQUET'')"
    unfolding endswith_suffix [symmetric] by code_simp
  have b: "suffix ''.csv.gz'' (lower ''green_2021.CSV.gz'')"
    unfolding endswith_suffix [symmetric] by code_simp
  have c: "suffix ''.csv'' (lower ''zones.csv'')"
    unfolding endswith_suffix [symmetric] by code_simp
  have d: "\<not> suffix ''.parquet'' (lower ''trips.parquet.zip'')"
    "\<not> suffix ''.csv'' (lower ''trips.parquet.zip'')"
    "\<not> suffix ''.csv.gz'' (lower ''trips.parquet.zip'')"
    unfolding endswith_suffix [symmetric] by code_simp+
  show ?thesis
    using a b c d
      detect_format_by_suffix [of "''s3://bucket/Trips.PARQUET''"]
      detect_format_by_suffix [of "''green_2021.CSV.gz''"]
      detect_format_by_suffix [of "''zones.csv''"]
      detect_format_by_suffix [of "''trips.parquet.zip''"]
    by blast
qed

section \<open>The sample sources, evaluated\<close>

lemma sample_trips:
  "pd_read_parquet sample_env ''trips.parquet''
     = Inr (Frame [''VendorID'', ''fare_amount''] [1, 2, 3, 4, 5])"
  by (simp add: sample_env_def)

lemma sample_engine: "create_engine sample_env sample_conn = None"
  by (simp add: sample_env_def)

lemma sample_empty:
  "pd_read_parquet sample_env ''empty.parquet'' = Inr (Frame [''VendorID'', ''fare_amount''] [])"
  by (simp add: sample_env_def)

lemma sample_resolve:
  "resolve_format ''trips.parquet'' None = Inr (''parquet'', [Detected_format ''parquet''])"
  by code_simp

lemma sample_batches:
  "read_data_chunked sample_env ''trips.parquet'' (Some ''parquet'') 3 None None
     = ([Read_parquet ''trips.parquet''],
        [Frame [''VendorID'', ''fare_amount''] [1, 2, 3],
         Frame [''VendorID'', ''fare_amount''] [4, 5]],
        None)"
  by code_simp

lemma sample_run:
  "run sample_env sample_conn ''trips.parquet'' ''trips'' 3 None (Some ''yellow'')
     = (Inr (),
        [Print (Detected_format ''parquet''), Create_engine sample_conn,
         Read_parquet ''trips.parquet'',
         To_sql (Frame [''VendorID'', ''fare_amount''] []) ''trips'' Replace,
         Print (Table_created ''trips''),
         To_sql (Frame [''VendorID'', ''fare_amount''] [1, 2, 3]) ''trips'' Append,
         Print (Inserted 3),
         To_sql (Frame [''VendorID'', ''fare_amount''] [4, 5]) ''trips'' Append,
         Print (Inserted 2),
         Print (Finished_loading ''trips'')])"
  by code_simp

lemma sample_empty_resolve:
  "resolve_format ''empty.parquet'' None = Inr (''parquet'', [Detected_format ''parquet''])"
  by code_simp

lemma sample_empty_batches:
  "read_data_chunked sample_env ''empty.parquet'' (Some ''parquet'') 100000 None None
     = ([Read_parquet ''empty.parquet''], [], None)"
  by code_simp

lemma refused_batches:
  "read_data_chunked refusing_env ''trips.parquet'' (Some ''parquet'') 3 None None
     = ([Read_parquet ''trips.parquet''],
        [Frame [''VendorID'', ''fare_amount''] [1, 2, 3],
         Frame [''VendorID'', ''fare_amount''] [4, 5]],
        None)"
  by code_simp

lemma refused_run:
  "run refusing_env sample_conn ''trips.parquet'' ''trips'' 3 (Some ''parquet'') None
     = (Inl (LibraryError ''connection lost''),
        [Create_engine sample_conn, Read_parquet ''trips.parquet'',
         To_sql (Frame [''VendorID'', ''fare_amount''] []) ''trips'' Replace,
         Print (Table_created ''trips''),
         To_sql (Frame [''VendorID'', ''fare_amount''] [1, 2, 3]) ''trips'' Append,
         Print (Inserted 3),
         To_sql (Frame [''VendorID'', ''fare_amount''] [4, 5]) ''trips'' Append])"
  by code_simp

section \<open>The chunk reader on a columnar source\<close>

text \<open>
  Inside the loop of the columnar branch \<open>start\<close> is never negative and \<open>chunksize\<close>
  is positive, so the slice \<open>df.iloc[start : start + chunksize]\<close> takes \<open>chunksize\<close>
  rows after dropping \<open>start\<close>.
\<close>

lemma rows_iloc:
  "0 \<le> start \<Longrightarrow> 0 \<le> step \<Longrightarrow>
   rows (iloc df start (start + step)) = take (nat step) (drop (nat start) (rows df))"
  by (auto simp: iloc_def slice_index_def len_def Let_def min_def nat_add_distrib)

lemma columns_iloc: "columns (iloc df a b) = columns df"
  by (simp add: iloc_def Let_def)

lemma range_up_nonneg:
  "0 \<le> start \<Longrightarrow> s \<in> set (range_up start stop step) \<Longrightarrow> 0 \<le> s"
proof (induction start stop step rule: range_up.induct)
  case (1 start stop step)
  show ?case
  proof (cases "0 < step \<and> start < stop")
    case True
    then have "range_up start stop step = start # range_up (start + step) stop step"
      by (subst range_up.simps) simp
    with True "1.prems" "1.IH" show ?thesis by auto
  next
    case False
    then have "range_up start stop step = []"
      by (subst range_up.simps) simp
    with "1.prems" show ?thesis by simp
  qed
qed

lemma rows_slices:
  assumes "0 < chunksize"
  shows "map (\<lambda>start. rows (iloc df start (start + chunksize))) (range_up 0 stop chunksize)
           = map (\<lambda>s. take (nat chunksize) (drop (nat s) (rows df))) (range_up 0 stop chunksize)"
  using assms range_up_nonneg [of 0 _ stop chunksize] by (auto simp: rows_iloc)

lemma concat_range_up:
  "0 \<le> start \<Longrightarrow> 0 < step \<Longrightarrow> stop = int (length xs) \<Longrightarrow>
   concat (map (\<lambda>s. take (nat step) (drop (nat s) xs)) (range_up start stop step))
     = drop (nat start) xs"
proof (induction start stop step rule: range_up.induct)
  case (1 start stop step)
  show ?case
  proof (cases "start < stop")
    case True
    have "drop (nat (start + step)) xs = drop (nat step) (drop (nat start) xs)"
      using "1.prems" by (simp add: nat_add_distrib add.commute)
    moreover have "concat (map (\<lambda>s. take (nat step) (drop (nat s) xs))
                     (range_up (start + step) stop step)) = drop (nat (start + step)) xs"
      using True "1.prems" "1.IH" by simp
    moreover have "range_up start stop step = start # range_up (start + step) stop step"
      using True "1.prems" by (subst range_up.simps) simp
    ultimately show ?thesis
      by (simp only: list.map concat.simps append_take_drop_id)
  next
    case False
    then have "range_up start stop step = []"
      by (subst range_up.simps) simp
    with False "1.prems" show ?thesis
      by simp
  qed
qed


lemma nth_range_up:
  "i < length (range_up start stop step) \<Longrightarrow> range_up start stop step ! i = start + int i * step"
proof (induction start stop step arbitrary: i rule: range_up.induct)
  case (1 start stop step)
  show ?case
  proof (cases "0 < step \<and> start < stop")
    case True
    then have eq: "range_up start stop step = start # range_up (start + step) stop step"
      by (subst range_up.simps) simp
    show ?thesis
    proof (cases i)
      case 0
      then show ?thesis by (simp add: eq)
    next
      case (Suc j)
      with "1.prems" eq have "j < length (range_up (start + step) stop step)" by simp
      with "1.IH" True have "range_up (start + step) stop step ! j = start + step + int j * step"
        by simp
      with Suc show ?thesis by (simp add: eq algebra_simps)
    qed
  next
    case False
    then have "range_up start stop step = []"
      by (subst range_up.simps) simp
    with "1.prems" show ?thesis by simp
  qed
qed

lemma range_up_empty: "stop \<le> start \<Longrightarrow> range_up start stop step = []"
  by (subst range_up.simps) simp

lemma range_down_empty: "stop \<ge> start \<Longrightarrow> range_down start stop step = []"
  by (subst range_down.simps) simp

lemma read_parquet_batches:
  assumes "0 < chunksize" and "pd_read_parquet env url = Inr df"
  shows "read_data_chunked env url (Some ''parquet'') chunksize use_dtype use_parse_dates
           = ([Read_parquet url],
              map (\<lambda>start. iloc df start (start + chunksize))
                (range_up 0 (int (len df)) chunksize),
              None)"
  using assms by (simp add: read_data_chunked_def py_range_def)

lemma read_parquet_empty:
  assumes "pd_read_parquet env url = Inr df" and "len df = 0" and "chunksize \<noteq> 0"
  shows "read_data_chunked env url (Some ''parquet'') chunksize use_dtype use_parse_dates
           = ([Read_parquet url], [], None)"
  using assms
  by (simp add: read_data_chunked_def py_range_def range_down_empty range_up_empty)

lemma read_data_chunked_io:
  "read_data_chunked env url file_format chunksize use_dtype use_parse_dates = (io, bs, raised)
   \<Longrightarrow> sql_calls io = [] \<and> printed io = [] \<and> rows_appended io = 0"
  by (auto simp: read_data_chunked_def sql_calls_def printed_def rows_appended_def Let_def
      split: if_splits sum.splits)

lemma whole_table:
  assumes pos: "0 < chunksize" and "0 < len df"
    and cat: "concat (map rows (map (\<lambda>start. iloc df start (start + chunksize)) (range_up 0 (int (len df)) chunksize))) = rows df"
  shows "map (\<lambda>start. iloc df start (start + chunksize)) (range_up 0 (int (len df)) chunksize) \<noteq> [] \<and>
     Frame (columns (hd (map (\<lambda>start. iloc df start (start + chunksize)) (range_up 0 (int (len df)) chunksize))))
       (concat (map rows (map (\<lambda>start. iloc df start (start + chunksize)) (range_up 0 (int (len df)) chunksize)))) = df"
proof -
  have st: "range_up 0 (int (len df)) chunksize
           = 0 # range_up (0 + chunksize) (int (len df)) chunksize"
    using assms(1,2) by (subst range_up.simps) simp
  have "Frame (columns (iloc df 0 (0 + chunksize))) (rows df) = df"
    by (simp add: columns_iloc)
  then show ?thesis
    unfolding cat unfolding st by simp
qed




text \<open>
  C6, as the program has it. For a columnar source and a chunk size \<open>C \<ge> 1\<close> the
  batches are the contiguous row slices of the decoded table, in order: batch \<open>i\<close> holds
  the rows from \<open>i * C\<close> up to \<open>i * C + C\<close>, every batch has the table's columns, and the
  rows of the batches, concatenated in the order of the yields, are the rows of the table.
  When the table has a record there is a batch, and the columns of the first batch with the
  concatenated rows are the decoded table itself.
\<close>

theorem read_data_chunked_round_trip:
  assumes "1 \<le> chunksize" and "pd_read_parquet env url = Inr df"
  shows "\<exists>bs. read_data_chunked env url (Some ''parquet'') chunksize use_dtype use_parse_dates
                  = ([Read_parquet url], bs, None) \<and>
              concat (map rows bs) = rows df \<and>
              (\<forall>b \<in> set bs. columns b = columns df) \<and>
              (\<forall>i < length bs.
                 bs ! i = Frame (columns df)
                            (take (nat chunksize) (drop (i * nat chunksize) (rows df)))) \<and>
              (0 < len df \<longrightarrow>
                 bs \<noteq> [] \<and> Frame (columns (hd bs)) (concat (map rows bs)) = df)"
proof -
  let ?starts = "range_up 0 (int (len df)) chunksize"
  let ?bs = "map (\<lambda>start. iloc df start (start + chunksize)) ?starts"
  have pos: "0 < chunksize" using assms(1) by simp
  have "map rows ?bs
      = map (\<lambda>s. take (nat chunksize) (drop (nat s) (rows df))) ?starts"
    using rows_slices [OF pos] by (simp add: comp_def)
  then have "concat (map rows ?bs)
      = concat (map (\<lambda>s. take (nat chunksize) (drop (nat s) (rows df))) ?starts)"
    by (simp only:)
  also have "\<dots> = drop (nat 0) (rows df)"
    using pos by (intro concat_range_up) (simp_all add: len_def)
  finally have cat: "concat (map rows ?bs) = rows df"
    by simp
  have cols: "\<forall>b \<in> set ?bs. columns b = columns df"
    by (auto simp: columns_iloc)
  have slices: "\<forall>i < length ?bs.
      ?bs ! i = Frame (columns df) (take (nat chunksize) (drop (i * nat chunksize) (rows df)))"
  proof (intro allI impI)
    fix i assume "i < length ?bs"
    then have i: "i < length ?starts" by simp
    then have "?starts ! i = int i * chunksize"
      by (simp add: nth_range_up)
    moreover have "nat (int i * chunksize) = i * nat chunksize"
      using pos by (simp add: nat_mult_distrib)
    moreover have "iloc df (int i * chunksize) (int i * chunksize + chunksize)
        = Frame (columns df) (rows (iloc df (int i * chunksize) (int i * chunksize + chunksize)))"
      by (simp add: iloc_def Let_def)
    ultimately show "?bs ! i
        = Frame (columns df) (take (nat chunksize) (drop (i * nat chunksize) (rows df)))"
      using i pos by (simp add: rows_iloc)
  qed
  have whole: "0 < len df \<longrightarrow>
      ?bs \<noteq> [] \<and> Frame (columns (hd ?bs)) (concat (map rows ?bs)) = df"
    using whole_table [OF pos _ cat] by (rule impI)
  have gen: "read_data_chunked env url (Some ''parquet'') chunksize use_dtype use_parse_dates
               = ([Read_parquet url], ?bs, None)"
    by (rule read_parquet_batches [OF pos assms(2)])
  show ?thesis
    apply (rule exI [of _ ?bs])
    apply (intro conjI)
        apply (rule gen)
       apply (rule cat)
      apply (rule cols)
     apply (rule slices)
    apply (rule whole)
    done
qed

theorem read_data_chunked_round_trip_witness:
  "(1::int) \<le> 3 \<and>
   pd_read_parquet sample_env ''trips.parquet''
     = Inr (Frame [''VendorID'', ''fare_amount''] [1, 2, 3, 4, 5]) \<and>
   (\<exists>bs. read_data_chunked sample_env ''trips.parquet'' (Some ''parquet'') 3 None None
            = ([Read_parquet ''trips.parquet''], bs, None) \<and>
         concat (map rows bs) = [1, 2, 3, 4, 5] \<and>
         (\<forall>b \<in> set bs. columns b = [''VendorID'', ''fare_amount'']) \<and>
         (\<forall>i < length bs.
            bs ! i = Frame [''VendorID'', ''fare_amount'']
                       (take 3 (drop (i * 3) [1, 2, 3, 4, 5]))) \<and>
         bs \<noteq> [] \<and>
         Frame (columns (hd bs)) (concat (map rows bs))
           = Frame [''VendorID'', ''fare_amount''] [1, 2, 3, 4, 5])"
proof -
  have c: "(1::int) \<le> 3" by simp
  have l: "len (Frame [''VendorID'', ''fare_amount''] [1, 2, 3, 4, 5 :: nat]) = 5"
    by (simp add: len_def)
  from read_data_chunked_round_trip [OF c sample_trips, of None None] c sample_trips
  show ?thesis
    unfolding l by simp
qed

text \<open>
  C6 as stated fails at a table with no record: two decoded tables with different columns
  and no row give the same batches, none, so the batches do not give the table back.
\<close>

theorem read_data_chunked_round_trip_counterexample:
  "pd_read_parquet sample_env ''empty.parquet''
     = Inr (Frame [''VendorID'', ''fare_amount''] []) \<and>
   pd_read_parquet bare_env ''empty.parquet'' = Inr (Frame [''trip_id''] []) \<and>
   Frame [''VendorID'', ''fare_amount''] ([] :: nat list) \<noteq> Frame [''trip_id''] [] \<and>
   read_data_chunked sample_env ''empty.parquet'' (Some ''parquet'') 3 None None
     = ([Read_parquet ''empty.parquet''], [], None) \<and>
   read_data_chunked bare_env ''empty.parquet'' (Some ''parquet'') 3 None None
     = ([Read_parquet ''empty.parquet''], [], None)"
proof -
  have a: "pd_read_parquet bare_env ''empty.parquet'' = Inr (Frame [''trip_id''] [])"
    by (simp add: bare_env_def)
  have l: "len (Frame [''VendorID'', ''fare_amount''] ([] :: nat list)) = 0"
    "len (Frame [''trip_id''] ([] :: nat list)) = 0"
    by (simp_all add: len_def)
  have c: "(3 :: int) \<noteq> 0"
    by simp
  from read_parquet_empty [OF sample_empty l(1) c] read_parquet_empty [OF a l(2) c]
    sample_empty a
  show ?thesis
    by simp
qed

text \<open>
  C10. With a negative chunk size the \<open>range\<close> of the columnar branch is empty: the
  generator yields no batch and raises nothing, whatever the source holds, so for a source
  with records the counts of the batches sum to less than \<open>R\<close>. With a chunk size of 0
  \<open>range\<close> raises. The guarantees on the number and the sum of the batches need
  \<open>chunksize \<ge> 1\<close>.
\<close>

theorem read_data_chunked_nonpositive_chunksize:
  assumes "pd_read_parquet env url = Inr df"
  shows "(chunksize < 0 \<longrightarrow>
            read_data_chunked env url (Some ''parquet'') chunksize use_dtype use_parse_dates
              = ([Read_parquet url], [], None) \<and>
            (0 < len df \<longrightarrow>
               sum_list (map len (fst (snd (read_data_chunked env url (Some ''parquet'')
                                             chunksize use_dtype use_parse_dates)))) < len df)) \<and>
         (chunksize = 0 \<longrightarrow>
            read_data_chunked env url (Some ''parquet'') chunksize use_dtype use_parse_dates
              = ([Read_parquet url], [],
                 Some (ValueError ''range() arg 3 must not be zero'')))"
  using assms by (simp add: read_data_chunked_def py_range_def range_down_empty)

theorem read_data_chunked_nonpositive_chunksize_witness:
  "pd_read_parquet sample_env ''trips.parquet''
     = Inr (Frame [''VendorID'', ''fare_amount''] [1, 2, 3, 4, 5]) \<and>
   (- 2 :: int) < 0 \<and>
   0 < len (Frame [''VendorID'', ''fare_amount''] [1, 2, 3, 4, 5 :: nat]) \<and>
   read_data_chunked sample_env ''trips.parquet'' (Some ''parquet'') (- 2) None None
     = ([Read_parquet ''trips.parquet''], [], None) \<and>
   sum_list (map len (fst (snd (read_data_chunked sample_env ''trips.parquet'' (Some ''parquet'')
                                  (- 2) None None))))
     < len (Frame [''VendorID'', ''fare_amount''] [1, 2, 3, 4, 5 :: nat]) \<and>
   read_data_chunked sample_env ''trips.parquet'' (Some ''parquet'') 0 None None
     = ([Read_parquet ''trips.parquet''], [],
        Some (ValueError ''range() arg 3 must not be zero''))"
proof -
  have c: "(- 2 :: int) < 0" by simp
  have l: "0 < len (Frame [''VendorID'', ''fare_amount''] [1, 2, 3, 4, 5 :: nat])"
    by (simp add: len_def)
  from read_data_chunked_nonpositive_chunksize [OF sample_trips, of "- 2" None None]
    read_data_chunked_nonpositive_chunksize [OF sample_trips, of 0 None None]
    sample_trips c l
  show ?thesis
    by blast
qed

section \<open>The load loop\<close>

lemma head_zero: "head df 0 = Frame (columns df) []"
  by (simp add: head_def iloc_def slice_index_def Let_def)

lemma load_chunks_done:
  "load_chunks env t first bs tr = (None, tr') \<Longrightarrow>
   tr' = tr @ (if first then (case bs of [] \<Rightarrow> []
                              | b # _ \<Rightarrow> [To_sql (head b 0) t Replace, Print (Table_created t)])
               else [])
            @ concat (map (\<lambda>b. [To_sql b t Append, Print (Inserted (len b))]) bs)"
proof (induction bs arbitrary: first tr)
  case Nil
  then show ?case by simp
next
  case (Cons b bs)
  show ?case
  proof (cases first)
    case True
    with Cons.prems have
      "load_chunks env t False bs
         (tr @ [To_sql (head b 0) t Replace, Print (Table_created t), To_sql b t Append,
                Print (Inserted (len b))]) = (None, tr')"
      by (auto simp: write_sql_def split: option.splits)
    from Cons.IH [OF this] True show ?thesis by simp
  next
    case False
    with Cons.prems have
      "load_chunks env t False bs (tr @ [To_sql b t Append, Print (Inserted (len b))])
         = (None, tr')"
      by (auto simp: write_sql_def split: option.splits)
    from Cons.IH [OF this] False show ?thesis by simp
  qed
qed

lemma load_chunks_writes:
  "load_chunks env t first bs tr = (r, tr') \<Longrightarrow>
   \<exists>new. tr' = tr @ new \<and>
     prefix (sql_calls new)
       ((if first then (case bs of [] \<Rightarrow> [] | b # _ \<Rightarrow> [To_sql (head b 0) t Replace]) else [])
        @ map (\<lambda>b. To_sql b t Append) bs)"
proof (induction bs arbitrary: first tr)
  case Nil
  then show ?case by (simp add: sql_calls_def)
next
  case (Cons b bs)
  let ?create = "if first then [To_sql (head b 0) t Replace] else []"
  let ?tr1 = "tr @ (if first then [To_sql (head b 0) t Replace, Print (Table_created t)] else [])"
  show ?case
  proof (cases "first \<and> to_sql env tr (head b 0) t Replace \<noteq> None")
    case True
    with Cons.prems have "tr' = tr @ [To_sql (head b 0) t Replace]"
      by (auto simp: write_sql_def split: option.splits)
    with True show ?thesis by (simp add: sql_calls_def)
  next
    case ok: False
    show ?thesis
    proof (cases "to_sql env ?tr1 b t Append")
      case (Some e)
      with ok Cons.prems have "tr' = ?tr1 @ [To_sql b t Append]"
        by (auto simp: write_sql_def split: option.splits if_splits)
      then have "tr' = tr @ ((if first then [To_sql (head b 0) t Replace, Print (Table_created t)] else [])
                      @ [To_sql b t Append])"
        by simp
      moreover have "prefix (sql_calls ((if first then [To_sql (head b 0) t Replace, Print (Table_created t)] else [])
                      @ [To_sql b t Append]))
               ((if first then (case b # bs of [] \<Rightarrow> [] | b # _ \<Rightarrow> [To_sql (head b 0) t Replace]) else [])
        @ map (\<lambda>b. To_sql b t Append) (b # bs))"
        by (simp add: sql_calls_def)
      ultimately show ?thesis by blast
    next
      case None
      with ok Cons.prems have
        "load_chunks env t False bs (?tr1 @ [To_sql b t Append, Print (Inserted (len b))]) = (r, tr')"
        by (auto simp: write_sql_def split: option.splits if_splits)
      from Cons.IH [OF this] obtain new where
        new: "tr' = (?tr1 @ [To_sql b t Append, Print (Inserted (len b))]) @ new"
          "prefix (sql_calls new) (map (\<lambda>b. To_sql b t Append) bs)"
        by auto
      have "tr' = tr @ ((if first then [To_sql (head b 0) t Replace, Print (Table_created t)] else [])
                      @ [To_sql b t Append, Print (Inserted (len b))] @ new)"
        using new(1) by simp
      moreover have "prefix (sql_calls ((if first then [To_sql (head b 0) t Replace, Print (Table_created t)] else [])
                      @ [To_sql b t Append, Print (Inserted (len b))] @ new))
               ((if first then (case b # bs of [] \<Rightarrow> [] | b # _ \<Rightarrow> [To_sql (head b 0) t Replace]) else [])
        @ map (\<lambda>b. To_sql b t Append) (b # bs))"
        using new(2) by (simp add: sql_calls_def)
      ultimately show ?thesis by blast
    qed
  qed
qed

subsection \<open>Traces\<close>

lemma sql_calls_simps:
  "sql_calls [] = []"
  "sql_calls (To_sql df name mode # tr) = To_sql df name mode # sql_calls tr"
  "sql_calls (Print m # tr) = sql_calls tr"
  "sql_calls (Create_engine c # tr) = sql_calls tr"
  "sql_calls (Read_csv u d p n # tr) = sql_calls tr"
  "sql_calls (Read_parquet u # tr) = sql_calls tr"
  by (simp_all add: sql_calls_def)

lemma sql_calls_append: "sql_calls (xs @ ys) = sql_calls xs @ sql_calls ys"
  by (simp add: sql_calls_def)

lemma sql_calls_prints: "sql_calls (map Print out) = []"
  by (induction out) (simp_all add: sql_calls_def)

lemma sql_calls_appends:
  "sql_calls (concat (map (\<lambda>b. [To_sql b t Append, Print (Inserted (len b))]) bs))
     = map (\<lambda>b. To_sql b t Append) bs"
  by (induction bs) (simp_all add: sql_calls_def)

lemma printed_simps:
  "printed [] = []"
  "printed (Print m # tr) = m # printed tr"
  "printed (To_sql df name mode # tr) = printed tr"
  "printed (Create_engine c # tr) = printed tr"
  "printed (Read_csv u d p n # tr) = printed tr"
  "printed (Read_parquet u # tr) = printed tr"
  by (simp_all add: printed_def)

lemma printed_append: "printed (xs @ ys) = printed xs @ printed ys"
  by (simp add: printed_def)

lemma printed_prints: "printed (map Print out) = out"
  by (induction out) (simp_all add: printed_def)

lemma printed_appends:
  "printed (concat (map (\<lambda>b. [To_sql b t Append, Print (Inserted (len b))]) bs))
     = map (\<lambda>b. Inserted (len b)) bs"
  by (induction bs) (simp_all add: printed_def)

lemma rows_appended_simps:
  "rows_appended [] = 0"
  "rows_appended (Print m # tr) = rows_appended tr"
  "rows_appended (To_sql df name Append # tr) = len df + rows_appended tr"
  "rows_appended (To_sql df name Replace # tr) = rows_appended tr"
  "rows_appended (Create_engine c # tr) = rows_appended tr"
  "rows_appended (Read_csv u d p n # tr) = rows_appended tr"
  "rows_appended (Read_parquet u # tr) = rows_appended tr"
  by (simp_all add: rows_appended_def)

lemma rows_appended_append: "rows_appended (xs @ ys) = rows_appended xs + rows_appended ys"
  by (simp add: rows_appended_def)

lemma rows_appended_prints: "rows_appended (map Print out) = 0"
  by (induction out) (simp_all add: rows_appended_def)

lemma rows_appended_appends:
  "rows_appended (concat (map (\<lambda>b. [To_sql b t Append, Print (Inserted (len b))]) bs))
     = sum_list (map len bs)"
  by (induction bs) (simp_all add: rows_appended_def)

lemma inserted_counts_printed:
  "inserted_counts tr = [n. Inserted n \<leftarrow> printed tr]"
  by (induction tr) (auto simp: inserted_counts_def printed_def split: event.splits message.splits)

section \<open>The command\<close>

lemma resolve_format_out:
  "resolve_format url file_format = Inr (fmt, out) \<Longrightarrow> out = [] \<or> out = [Detected_format fmt]"
  by (auto simp: resolve_format_def split: option.splits)

lemma resolve_format_parquet:
  assumes "file_format = Some ''parquet'' \<or> file_format = None \<and> detect_format url = Some ''parquet''"
  shows "resolve_format url file_format
           = Inr (''parquet'', case file_format of None \<Rightarrow> [Detected_format ''parquet''] | Some f \<Rightarrow> [])"
  using assms by (auto simp: resolve_format_def)

lemma run_resolved:
  assumes "resolve_format url file_format = Inr (fmt, out)"
    and "(use_dtype, use_parse_dates)
           = (if fmt = ''parquet'' then (None, None) else taxi_hints taxi_type)"
    and "read_data_chunked env url (Some fmt) chunksize use_dtype use_parse_dates
           = (io, bs, raised)"
    and "load_chunks env target_table True bs (map Print out @ [Create_engine conn] @ io)
           = (r, tr)"
    and "create_engine env conn = None"
  shows "run env conn url target_table chunksize file_format taxi_type
           = (case r of
                Some e \<Rightarrow> (Inl e, tr)
              | None \<Rightarrow>
                  (case raised of
                     Some e \<Rightarrow> (Inl e, tr)
                   | None \<Rightarrow> (Inr (), tr @ [Print (Finished_loading target_table)])))"
proof (cases "taxi_hints taxi_type")
  case (Pair d p)
  show ?thesis
  proof (cases "fmt = ''parquet''")
    case True
    with assms Pair show ?thesis
      by (simp add: run_def split: option.splits)
  next
    case False
    with assms Pair show ?thesis
      by (simp add: run_def split: option.splits)
  qed
qed

lemma run_engine_raises:
  assumes "resolve_format url file_format = Inr (fmt, out)"
    and "create_engine env conn = Some e"
  shows "run env conn url target_table chunksize file_format taxi_type
           = (Inl e, map Print out @ [Create_engine conn])"
  using assms by (cases "taxi_hints taxi_type") (simp add: run_def)

lemma run_parquet:
  assumes "file_format = Some ''parquet'' \<or> file_format = None \<and> detect_format url = Some ''parquet''"
    and "read_data_chunked env url (Some ''parquet'') chunksize None None = (io, bs, raised)"
    and "load_chunks env target_table True bs
           (map Print (case file_format of None \<Rightarrow> [Detected_format ''parquet''] | Some f \<Rightarrow> [])
            @ [Create_engine conn] @ io) = (r, tr)"
    and "create_engine env conn = None"
  shows "run env conn url target_table chunksize file_format taxi_type
           = (case r of
                Some e \<Rightarrow> (Inl e, tr)
              | None \<Rightarrow>
                  (case raised of
                     Some e \<Rightarrow> (Inl e, tr)
                   | None \<Rightarrow> (Inr (), tr @ [Print (Finished_loading target_table)])))"
  by (rule run_resolved [OF resolve_format_parquet [OF assms(1)] _ assms(2) assms(3) assms(4)])
    simp

text \<open>
  C5. When no format is given and the locator ends in none of the three suffixes, \<open>run\<close>
  raises the usage error, and its trace is empty: nothing was printed, no engine was
  created, no source was read and no write was sent.
\<close>

theorem run_usage_error_before_io:
  assumes "\<not> suffix ''.parquet'' (lower url)" and "\<not> suffix ''.csv'' (lower url)"
    and "\<not> suffix ''.csv.gz'' (lower url)"
  shows "run env conn url target_table chunksize None taxi_type
           = (Inl (UsageError
                ''Cannot detect format from URL. Please specify --format (csv or parquet)''),
              [])"
proof -
  have "resolve_format url None
          = Inl (UsageError
              ''Cannot detect format from URL. Please specify --format (csv or parquet)'')"
    using detect_format_none [OF assms] by (simp add: resolve_format_def)
  then show ?thesis
    by (cases "taxi_hints taxi_type") (simp add: run_def)
qed

theorem run_usage_error_before_io_witness:
  "\<not> suffix ''.parquet'' (lower ''https://host/trips.json'') \<and>
   \<not> suffix ''.csv'' (lower ''https://host/trips.json'') \<and>
   \<not> suffix ''.csv.gz'' (lower ''https://host/trips.json'') \<and>
   run sample_env sample_conn ''https://host/trips.json'' ''trips'' 100000 None (Some ''green'')
     = (Inl (UsageError
          ''Cannot detect format from URL. Please specify --format (csv or parquet)''),
        [])"
proof -
  have a: "\<not> suffix ''.parquet'' (lower ''https://host/trips.json'')"
    unfolding endswith_suffix [symmetric] by code_simp
  have b: "\<not> suffix ''.csv'' (lower ''https://host/trips.json'')"
    unfolding endswith_suffix [symmetric] by code_simp
  have c: "\<not> suffix ''.csv.gz'' (lower ''https://host/trips.json'')"
    unfolding endswith_suffix [symmetric] by code_simp
  from run_usage_error_before_io [OF a b c] a b c show ?thesis
    by blast
qed

text \<open>
  C9. For every format other than \<open>csv\<close> and \<open>parquet\<close> the generator raises the
  \<open>ValueError\<close> of its last branch before it opens a source or yields a batch, and
  \<open>run\<close>, which does not catch it, ends with that exception once the engine is built
  and before any write.
\<close>

theorem read_data_chunked_unsupported:
  assumes "file_format \<noteq> Some ''csv''" and "file_format \<noteq> Some ''parquet''"
    and "create_engine env conn = None"
  shows "read_data_chunked env url file_format chunksize use_dtype use_parse_dates
           = ([], [], Some (ValueError (''Unsupported format: '' @ str_format file_format))) \<and>
         (case file_format of
            None \<Rightarrow> True
          | Some f \<Rightarrow>
              run env conn url target_table chunksize (Some f) taxi_type
                = (Inl (ValueError (''Unsupported format: '' @ f)), [Create_engine conn]))"
proof -
  have gen: "read_data_chunked env url file_format chunksize d p
           = ([], [], Some (ValueError (''Unsupported format: '' @ str_format file_format)))"
    for d p
    using assms by (simp add: read_data_chunked_def)
  have "run env conn url target_table chunksize (Some f) taxi_type
          = (Inl (ValueError (''Unsupported format: '' @ f)), [Create_engine conn])"
    if f: "file_format = Some f" for f
  proof -
    have res: "resolve_format url (Some f) = Inr (f, [])"
      by (simp add: resolve_format_def)
    have fmt: "f \<noteq> ''parquet''"
      using assms f by simp
    have load: "load_chunks env target_table True [] (map Print [] @ [Create_engine conn] @ [])
            = (None, [Create_engine conn])"
      by simp
    from fmt obtain d p where
      hints: "(d, p) = (if f = ''parquet'' then (None, None) else taxi_hints taxi_type)"
      by (cases "taxi_hints taxi_type") auto
    from run_resolved [OF res hints gen [unfolded f] load assms(3)] show ?thesis
      by (simp add: str_format_def)
  qed
  with gen show ?thesis
    by (simp split: option.splits)
qed

theorem read_data_chunked_unsupported_witness:
  "Some ''xlsx'' \<noteq> Some ''csv'' \<and> Some ''xlsx'' \<noteq> Some ''parquet'' \<and>
   create_engine sample_env sample_conn = None \<and>
   read_data_chunked sample_env ''trips.xlsx'' (Some ''xlsx'') 100 None None
     = ([], [], Some (ValueError ''Unsupported format: xlsx'')) \<and>
   run sample_env sample_conn ''trips.xlsx'' ''trips'' 100 (Some ''xlsx'') None
     = (Inl (ValueError ''Unsupported format: xlsx''), [Create_engine sample_conn])"
proof -
  have a: "Some ''xlsx'' \<noteq> Some ''csv''" and b: "Some ''xlsx'' \<noteq> Some ''parquet''"
    by simp_all
  from read_data_chunked_unsupported [OF a b sample_engine, of "''trips.xlsx''" 100 None None
      "''trips''" None]
  show ?thesis
    by (simp add: str_format_def sample_engine)
qed

text \<open>
  C7. When the format is \<open>parquet\<close>, given or detected, the taxi type does not change
  anything \<open>run\<close> does: two runs that differ in it only have the same result and the
  same trace, so the same batches are written. The generator itself ignores the two hint
  arguments on its columnar branch.
\<close>

theorem run_parquet_ignores_hints:
  assumes "file_format = Some ''parquet'' \<or> file_format = None \<and> detect_format url = Some ''parquet''"
  shows "run env conn url target_table chunksize file_format taxi_type
           = run env conn url target_table chunksize file_format taxi_type' \<and>
         read_data_chunked env url (Some ''parquet'') chunksize use_dtype use_parse_dates
           = read_data_chunked env url (Some ''parquet'') chunksize use_dtype' use_parse_dates'"
proof -
  obtain io bs raised where
    gen: "read_data_chunked env url (Some ''parquet'') chunksize None None = (io, bs, raised)"
    by (cases "read_data_chunked env url (Some ''parquet'') chunksize None None") auto
  obtain r tr where
    load: "load_chunks env target_table True bs
           (map Print (case file_format of None \<Rightarrow> [Detected_format ''parquet''] | Some f \<Rightarrow> [])
            @ [Create_engine conn] @ io) = (r, tr)"
    by (cases "load_chunks env target_table True bs
           (map Print (case file_format of None \<Rightarrow> [Detected_format ''parquet''] | Some f \<Rightarrow> [])
            @ [Create_engine conn] @ io)") auto
  have "run env conn url target_table chunksize file_format taxi_type
           = run env conn url target_table chunksize file_format taxi_type'"
  proof (cases "create_engine env conn")
    case None
    show ?thesis
      by (simp only: run_parquet [OF assms gen load None])
  next
    case (Some e)
    show ?thesis
      by (simp only: run_engine_raises [OF resolve_format_parquet [OF assms] Some])
  qed
  moreover have "read_data_chunked env url (Some ''parquet'') chunksize use_dtype use_parse_dates
           = read_data_chunked env url (Some ''parquet'') chunksize use_dtype' use_parse_dates'"
    by (simp add: read_data_chunked_def)
  ultimately show ?thesis by simp
qed

theorem run_parquet_ignores_hints_witness:
  "detect_format ''trips.parquet'' = Some ''parquet'' \<and>
   run sample_env sample_conn ''trips.parquet'' ''trips'' 3 None (Some ''yellow'')
     = run sample_env sample_conn ''trips.parquet'' ''trips'' 3 None None \<and>
   read_data_chunked sample_env ''trips.parquet'' (Some ''parquet'') 3
       (Some yellow_dtype) (Some yellow_parse_dates)
     = read_data_chunked sample_env ''trips.parquet'' (Some ''parquet'') 3 None None"
proof -
  have d: "detect_format ''trips.parquet'' = Some ''parquet''"
    by code_simp
  then have "(None :: string option) = Some ''parquet'' \<or>
      (None :: string option) = None \<and> detect_format ''trips.parquet'' = Some ''parquet''"
    by simp
  from run_parquet_ignores_hints [OF this] d show ?thesis
    by blast
qed

text \<open>
  C2. The writes \<open>run\<close> sends are, in this order, one create-or-replace with the
  columns of the first batch and no row, then one append for each batch, the first
  included. A run that returns has sent all of them; a run that an exception ends has sent
  a prefix of them. So the table is created at most once, before any append, and never again;
  and when there is no batch nothing is sent.
\<close>

theorem run_creates_once_then_appends:
  assumes "resolve_format url file_format = Inr (fmt, out)"
    and "(use_dtype, use_parse_dates)
           = (if fmt = ''parquet'' then (None, None) else taxi_hints taxi_type)"
    and "read_data_chunked env url (Some fmt) chunksize use_dtype use_parse_dates
           = (io, bs, raised)"
    and "run env conn url target_table chunksize file_format taxi_type = (res, tr)"
  shows "prefix (sql_calls tr)
           ((case bs of [] \<Rightarrow> [] | b # _ \<Rightarrow> [To_sql (Frame (columns b) []) target_table Replace])
            @ map (\<lambda>b. To_sql b target_table Append) bs) \<and>
         (res = Inr () \<longrightarrow>
            sql_calls tr
              = (case bs of [] \<Rightarrow> [] | b # _ \<Rightarrow> [To_sql (Frame (columns b) []) target_table Replace])
                @ map (\<lambda>b. To_sql b target_table Append) bs)"
proof (cases "create_engine env conn")
  case (Some e)
  from run_engine_raises [OF assms(1) Some] assms(4)
  have "res = Inl e" and "tr = map Print out @ [Create_engine conn]"
    by simp_all
  then show ?thesis
    by (simp add: sql_calls_append sql_calls_prints sql_calls_simps)
next
  case None
  let ?pre = "map Print out @ [Create_engine conn] @ io"
  let ?plan = "(case bs of [] \<Rightarrow> [] | b # _ \<Rightarrow> [To_sql (Frame (columns b) []) target_table Replace])
            @ map (\<lambda>b. To_sql b target_table Append) bs"
  obtain r tr0 where load: "load_chunks env target_table True bs ?pre = (r, tr0)"
    by (cases "load_chunks env target_table True bs ?pre") auto
  have pre: "sql_calls ?pre = []"
    using read_data_chunked_io [OF assms(3)]
    by (simp add: sql_calls_append sql_calls_prints sql_calls_simps)
  from load_chunks_writes [OF load] obtain new where
    new: "tr0 = ?pre @ new" "prefix (sql_calls new) ?plan"
    by (auto simp: head_zero split: list.splits)
  have run_eq: "(res, tr) = (case r of
                Some e \<Rightarrow> (Inl e, tr0)
              | None \<Rightarrow>
                  (case raised of
                     Some e \<Rightarrow> (Inl e, tr0)
                   | None \<Rightarrow> (Inr (), tr0 @ [Print (Finished_loading target_table)])))"
    using run_resolved [OF assms(1-3) load None] assms(4) by simp
  then have calls: "sql_calls tr = sql_calls new"
    using new(1) pre
    by (auto simp: sql_calls_append sql_calls_simps split: option.splits)
  have "sql_calls tr = ?plan" if "res = Inr ()"
  proof -
    from that run_eq have "r = None"
      by (auto split: option.splits)
    with load_chunks_done [of env target_table True bs ?pre tr0] load new(1)
    have "new = (case bs of [] \<Rightarrow> []
                 | b # _ \<Rightarrow> [To_sql (head b 0) target_table Replace,
                              Print (Table_created target_table)])
                @ concat (map (\<lambda>b. [To_sql b target_table Append, Print (Inserted (len b))]) bs)"
      by simp
    then have "sql_calls new = ?plan"
      by (simp add: sql_calls_append sql_calls_appends sql_calls_simps head_zero
          split: list.splits)
    with calls show ?thesis by simp
  qed
  with calls new(2) show ?thesis by simp
qed

theorem run_creates_once_then_appends_witness:
  "resolve_format ''trips.parquet'' None = Inr (''parquet'', [Detected_format ''parquet'']) \<and>
   fst (run sample_env sample_conn ''trips.parquet'' ''trips'' 3 None (Some ''yellow'')) = Inr () \<and>
   sql_calls (snd (run sample_env sample_conn ''trips.parquet'' ''trips'' 3 None (Some ''yellow'')))
     = [To_sql (Frame [''VendorID'', ''fare_amount''] []) ''trips'' Replace,
        To_sql (Frame [''VendorID'', ''fare_amount''] [1, 2, 3]) ''trips'' Append,
        To_sql (Frame [''VendorID'', ''fare_amount''] [4, 5]) ''trips'' Append] \<and>
   fst (run refusing_env sample_conn ''trips.parquet'' ''trips'' 3 (Some ''parquet'') None)
     = Inl (LibraryError ''connection lost'') \<and>
   prefix
     (sql_calls
        (snd (run refusing_env sample_conn ''trips.parquet'' ''trips'' 3 (Some ''parquet'') None)))
     [To_sql (Frame [''VendorID'', ''fare_amount''] []) ''trips'' Replace,
      To_sql (Frame [''VendorID'', ''fare_amount''] [1, 2, 3]) ''trips'' Append,
      To_sql (Frame [''VendorID'', ''fare_amount''] [4, 5]) ''trips'' Append]"
proof -
  have h: "(None, None) = (if ''parquet'' = ''parquet'' then (None, None)
                           else taxi_hints (Some ''yellow''))"
    by simp
  have h': "(None, None) = (if ''parquet'' = ''parquet'' then (None, None)
                            else taxi_hints None)"
    by simp
  have r: "resolve_format ''trips.parquet'' (Some ''parquet'') = Inr (''parquet'', [])"
    by (simp add: resolve_format_def)
  from run_creates_once_then_appends [OF sample_resolve h sample_batches sample_run]
    run_creates_once_then_appends [OF r h' refused_batches refused_run]
  show ?thesis
    by (simp add: sample_resolve sample_run refused_run)
qed

text \<open>
  C3, as the program has it. A run that returns has printed the line of the detected
  format if it detected one, \<open>Table created\<close> if there was a batch, one
  \<open>Inserted: n\<close> for each batch with the number of its records, and last the line
  \<open>Finished loading\<close>. The counts of the \<open>Inserted\<close> lines are the record counts of
  the batches, so they sum to the number of records appended; the sum itself is neither
  printed nor returned.
\<close>

theorem run_prints_counts_then_finishes:
  assumes "resolve_format url file_format = Inr (fmt, out)"
    and "(use_dtype, use_parse_dates)
           = (if fmt = ''parquet'' then (None, None) else taxi_hints taxi_type)"
    and "read_data_chunked env url (Some fmt) chunksize use_dtype use_parse_dates
           = (io, bs, raised)"
    and "run env conn url target_table chunksize file_format taxi_type = (Inr (), tr)"
  shows "printed tr
           = out @ (case bs of [] \<Rightarrow> [] | b # _ \<Rightarrow> [Table_created target_table])
               @ map (\<lambda>b. Inserted (len b)) bs @ [Finished_loading target_table] \<and>
         inserted_counts tr = map len bs \<and>
         rows_appended tr = sum_list (map len bs)"
proof -
  let ?pre = "map Print out @ [Create_engine conn] @ io"
  let ?new = "(case bs of [] \<Rightarrow> []
                 | b # _ \<Rightarrow> [To_sql (head b 0) target_table Replace,
                              Print (Table_created target_table)])
                @ concat (map (\<lambda>b. [To_sql b target_table Append, Print (Inserted (len b))]) bs)"
  obtain r tr0 where load: "load_chunks env target_table True bs ?pre = (r, tr0)"
    by (cases "load_chunks env target_table True bs ?pre") auto
  have engine: "create_engine env conn = None"
  proof (cases "create_engine env conn")
    case (Some e)
    from run_engine_raises [OF assms(1) Some] assms(4) show ?thesis
      by simp
  qed simp
  from run_resolved [OF assms(1-3) load engine] assms(4)
  have r: "r = None" and tr: "tr = tr0 @ [Print (Finished_loading target_table)]"
    by (auto split: option.splits)
  from load_chunks_done [of env target_table True bs ?pre tr0] load r
  have tr0: "tr0 = ?pre @ ?new"
    by simp
  have io: "printed io = []" "rows_appended io = 0"
    using read_data_chunked_io [OF assms(3)] by simp_all
  have p: "printed tr
           = out @ (case bs of [] \<Rightarrow> [] | b # _ \<Rightarrow> [Table_created target_table])
               @ map (\<lambda>b. Inserted (len b)) bs @ [Finished_loading target_table]"
    unfolding tr tr0 using io(1)
    by (simp add: printed_append printed_prints printed_appends printed_simps
        split: list.splits)
  have "inserted_counts tr = map len bs"
    unfolding inserted_counts_printed p using resolve_format_out [OF assms(1)]
    by (auto simp: comp_def split: list.splits)
  moreover have "rows_appended tr = sum_list (map len bs)"
    unfolding tr tr0 using io(2)
    by (simp add: rows_appended_append rows_appended_prints rows_appended_appends
        rows_appended_simps head_zero split: list.splits)
  ultimately show ?thesis using p by simp
qed

theorem run_prints_counts_then_finishes_witness:
  "resolve_format ''trips.parquet'' None = Inr (''parquet'', [Detected_format ''parquet'']) \<and>
   fst (run sample_env sample_conn ''trips.parquet'' ''trips'' 3 None (Some ''yellow'')) = Inr () \<and>
   printed (snd (run sample_env sample_conn ''trips.parquet'' ''trips'' 3 None (Some ''yellow'')))
     = [Detected_format ''parquet'', Table_created ''trips'', Inserted 3, Inserted 2,
        Finished_loading ''trips''] \<and>
   inserted_counts
       (snd (run sample_env sample_conn ''trips.parquet'' ''trips'' 3 None (Some ''yellow'')))
     = [3, 2] \<and>
   rows_appended
       (snd (run sample_env sample_conn ''trips.parquet'' ''trips'' 3 None (Some ''yellow'')))
     = 5"
proof -
  have h: "(None, None) = (if ''parquet'' = ''parquet'' then (None, None)
                           else taxi_hints (Some ''yellow''))"
    by simp
  from run_prints_counts_then_finishes [OF sample_resolve h sample_batches sample_run]
  show ?thesis
    by (simp add: sample_resolve sample_run len_def)
qed

text \<open>
  C3 as stated fails: a run over five records in chunks of three returns \<open>None\<close>,
  has appended five records, and nothing it printed carries the number five.
\<close>

theorem run_reports_no_total_counterexample:
  "fst (run sample_env sample_conn ''trips.parquet'' ''trips'' 3 None None) = Inr () \<and>
   rows_appended (snd (run sample_env sample_conn ''trips.parquet'' ''trips'' 3 None None)) = 5 \<and>
   printed (snd (run sample_env sample_conn ''trips.parquet'' ''trips'' 3 None None))
     = [Detected_format ''parquet'', Table_created ''trips'', Inserted 3, Inserted 2,
        Finished_loading ''trips''] \<and>
   5 \<notin> set (inserted_counts
               (snd (run sample_env sample_conn ''trips.parquet'' ''trips'' 3 None None)))"
proof -
  have "run sample_env sample_conn ''trips.parquet'' ''trips'' 3 None None
     = (Inr (),
        [Print (Detected_format ''parquet''), Create_engine sample_conn,
         Read_parquet ''trips.parquet'',
         To_sql (Frame [''VendorID'', ''fare_amount''] []) ''trips'' Replace,
         Print (Table_created ''trips''),
         To_sql (Frame [''VendorID'', ''fare_amount''] [1, 2, 3]) ''trips'' Append,
         Print (Inserted 3),
         To_sql (Frame [''VendorID'', ''fare_amount''] [4, 5]) ''trips'' Append,
         Print (Inserted 2),
         Print (Finished_loading ''trips'')])"
    by code_simp
  then show ?thesis
    by (simp add: printed_simps rows_appended_simps inserted_counts_printed len_def)
qed

text \<open>
  C8, as the program has it. When the generator yields no batch and ends without an
  exception, \<open>run\<close> sends no write at all, neither a create nor an append, prints no
  \<open>Inserted\<close> line and ends with the line \<open>Finished loading\<close>. A columnar source
  with no record and a chunk size other than 0 is such a case.
\<close>

theorem run_zero_batches:
  assumes "resolve_format url file_format = Inr (fmt, out)"
    and "(use_dtype, use_parse_dates)
           = (if fmt = ''parquet'' then (None, None) else taxi_hints taxi_type)"
    and "read_data_chunked env url (Some fmt) chunksize use_dtype use_parse_dates
           = (io, [], None)"
    and "create_engine env conn = None"
  shows "run env conn url target_table chunksize file_format taxi_type
           = (Inr (),
              map Print out @ [Create_engine conn] @ io
              @ [Print (Finished_loading target_table)]) \<and>
         sql_calls (snd (run env conn url target_table chunksize file_format taxi_type)) = [] \<and>
         inserted_counts (snd (run env conn url target_table chunksize file_format taxi_type))
           = [] \<and>
         (pd_read_parquet env url = Inr df \<and> len df = 0 \<and> chunksize \<noteq> 0 \<longrightarrow>
            read_data_chunked env url (Some ''parquet'') chunksize use_dtype use_parse_dates
              = ([Read_parquet url], [], None))"
proof -
  have load: "load_chunks env target_table True [] (map Print out @ [Create_engine conn] @ io)
         = (None, map Print out @ [Create_engine conn] @ io)"
    by simp
  have run_eq: "run env conn url target_table chunksize file_format taxi_type
           = (Inr (),
              map Print out @ [Create_engine conn] @ io
              @ [Print (Finished_loading target_table)])"
    using run_resolved [OF assms(1-3) load assms(4)] by simp
  have io: "sql_calls io = []" "printed io = []"
    using read_data_chunked_io [OF assms(3)] by simp_all
  have "sql_calls (snd (run env conn url target_table chunksize file_format taxi_type)) = []"
    unfolding run_eq using io(1)
    by (simp add: sql_calls_append sql_calls_prints sql_calls_simps)
  moreover have
    "inserted_counts (snd (run env conn url target_table chunksize file_format taxi_type)) = []"
    unfolding run_eq inserted_counts_printed
    using io(2) resolve_format_out [OF assms(1)]
    by (auto simp: printed_append printed_prints printed_simps)
  ultimately show ?thesis
    using run_eq read_parquet_empty [of env url df chunksize use_dtype use_parse_dates]
    by simp
qed

theorem run_zero_batches_witness:
  "resolve_format ''empty.parquet'' None = Inr (''parquet'', [Detected_format ''parquet'']) \<and>
   create_engine sample_env sample_conn = None \<and>
   pd_read_parquet sample_env ''empty.parquet'' = Inr (Frame [''VendorID'', ''fare_amount''] []) \<and>
   len (Frame [''VendorID'', ''fare_amount''] ([] :: nat list)) = 0 \<and>
   (100000 :: int) \<noteq> 0 \<and>
   read_data_chunked sample_env ''empty.parquet'' (Some ''parquet'') 100000 None None
     = ([Read_parquet ''empty.parquet''], [], None) \<and>
   run sample_env sample_conn ''empty.parquet'' ''trips'' 100000 None (Some ''green'')
     = (Inr (),
        [Print (Detected_format ''parquet''), Create_engine sample_conn,
         Read_parquet ''empty.parquet'', Print (Finished_loading ''trips'')]) \<and>
   sql_calls (snd (run sample_env sample_conn ''empty.parquet'' ''trips'' 100000 None
                     (Some ''green''))) = [] \<and>
   inserted_counts (snd (run sample_env sample_conn ''empty.parquet'' ''trips'' 100000 None
                     (Some ''green''))) = []"
proof -
  have h: "(None, None) = (if ''parquet'' = ''parquet'' then (None, None)
                           else taxi_hints (Some ''green''))"
    by simp
  have l: "len (Frame [''VendorID'', ''fare_amount''] ([] :: nat list)) = 0"
    by (simp add: len_def)
  have c: "(100000 :: int) \<noteq> 0"
    by simp
  note t = run_zero_batches [OF sample_empty_resolve h sample_empty_batches sample_engine,
      of "''trips''" "Frame [''VendorID'', ''fare_amount''] []"]
  from t have r: "run sample_env sample_conn ''empty.parquet'' ''trips'' 100000 None (Some ''green'')
     = (Inr (),
        [Print (Detected_format ''parquet''), Create_engine sample_conn,
         Read_parquet ''empty.parquet'', Print (Finished_loading ''trips'')])"
    by simp
  from t r sample_empty_resolve sample_empty sample_empty_batches sample_engine l c
  show ?thesis
    by blast
qed

text \<open>
  C8 as stated fails three ways. On a columnar source with no record the run prints the
  detected format and \<open>Finished loading\<close> and nothing else, so no total of 0 is
  reported; with a chunk size of 0 that run ends with the \<open>ValueError\<close> of \<open>range\<close>;
  and on a delimited-text source with a header and no record the generator yields one
  batch of no row, so the run creates the table and sends one append.
\<close>

theorem run_empty_source_counterexample:
  "run sample_env sample_conn ''empty.parquet'' ''trips'' 100 None None
     = (Inr (),
        [Print (Detected_format ''parquet''), Create_engine sample_conn,
         Read_parquet ''empty.parquet'', Print (Finished_loading ''trips'')]) \<and>
   inserted_counts (snd (run sample_env sample_conn ''empty.parquet'' ''trips'' 100 None None))
     = [] \<and>
   run sample_env sample_conn ''empty.parquet'' ''trips'' 0 None None
     = (Inl (ValueError ''range() arg 3 must not be zero''),
        [Print (Detected_format ''parquet''), Create_engine sample_conn,
         Read_parquet ''empty.parquet'']) \<and>
   sum_list (map len (fst (snd (read_data_chunked header_only_env ''zones.csv'' (Some ''csv'')
                                  100 None None)))) = 0 \<and>
   run header_only_env sample_conn ''zones.csv'' ''zones'' 100 None None
     = (Inr (),
        [Print (Detected_format ''csv''), Create_engine sample_conn,
         Read_csv ''zones.csv'' None None 100,
         To_sql (Frame [''LocationID'', ''Zone''] []) ''zones'' Replace,
         Print (Table_created ''zones''),
         To_sql (Frame [''LocationID'', ''Zone''] []) ''zones'' Append,
         Print (Inserted 0),
         Print (Finished_loading ''zones'')])"
proof -
  have c: "run header_only_env sample_conn ''zones.csv'' ''zones'' 100 None None
     = (Inr (),
        [Print (Detected_format ''csv''), Create_engine sample_conn,
         Read_csv ''zones.csv'' None None 100,
         To_sql (Frame [''LocationID'', ''Zone''] []) ''zones'' Replace,
         Print (Table_created ''zones''),
         To_sql (Frame [''LocationID'', ''Zone''] []) ''zones'' Append,
         Print (Inserted 0),
         Print (Finished_loading ''zones'')])"
    by code_simp
  have d: "sum_list (map len (fst (snd (read_data_chunked header_only_env ''zones.csv''
                                          (Some ''csv'') 100 None None)))) = 0"
    by (simp add: read_data_chunked_def header_only_env_def Let_def len_def)
  have a: "run sample_env sample_conn ''empty.parquet'' ''trips'' 100 None None
     = (Inr (),
        [Print (Detected_format ''parquet''), Create_engine sample_conn,
         Read_parquet ''empty.parquet'', Print (Finished_loading ''trips'')])"
    by code_simp
  have b: "run sample_env sample_conn ''empty.parquet'' ''trips'' 0 None None
     = (Inl (ValueError ''range() arg 3 must not be zero''),
        [Print (Detected_format ''parquet''), Create_engine sample_conn,
         Read_parquet ''empty.parquet''])"
    by code_simp
  show ?thesis
    unfolding a b c d by (simp add: inserted_counts_printed printed_simps)
qed

end
